theory Spec2Isabelle
  imports Complex_Main "HOL-Library.Sublist" "HOL-Library.Monad_Syntax"
begin

section \<open>Overview\<close>

text \<open>
  The repository compares agent frameworks on one task. Its web client (\<open>App.jsx\<close>,
  \<open>services/runAgent.js\<close>) builds the combinations of the selected frameworks and models,
  calls one provider endpoint per combination, turns every outcome into a card and
  aggregates the cards into highlights. Its API server answers each endpoint through
  \<open>simulateAgent\<close>, which either asks an upstream model to play the framework or returns a
  fixed mock response. Both programs are embedded here as functions: what the network, the
  clock and the environment supply is a parameter, a thrown error or a rejected promise is a
  value, and the effects of an adapter are returned with its result.

  The repository also holds a server file whose routes call provider helpers directly;
  the properties below are about the server with \<open>simulateAgent\<close>.
\<close>

section \<open>Numbers\<close>

text \<open>
  JavaScript numbers are IEEE doubles. They are idealised here as exact rationals together
  with the three non-finite values; rounding error, overflow and the negative zero are not
  modelled.
\<close>

datatype number = Fin rat | NaN | Infinity | NegInfinity

fun sign_of :: "number \<Rightarrow> rat" where
  "sign_of (Fin a) = sgn a"
| "sign_of Infinity = 1"
| "sign_of NegInfinity = - 1"
| "sign_of NaN = 0"

definition infinity_of_sign :: "rat \<Rightarrow> number" where
  "infinity_of_sign s = (if s = 0 then NaN else if 0 < s then Infinity else NegInfinity)"

text \<open>The operator \<open>*\<close> on numbers.\<close>

fun num_mul :: "number \<Rightarrow> number \<Rightarrow> number" where
  "num_mul NaN y = NaN"
| "num_mul x NaN = NaN"
| "num_mul (Fin a) (Fin b) = Fin (a * b)"
| "num_mul x y = infinity_of_sign (sign_of x * sign_of y)"

text \<open>The operator \<open>/\<close> on numbers (a zero divisor is the positive zero).\<close>

fun num_div :: "number \<Rightarrow> number \<Rightarrow> number" where
  "num_div NaN y = NaN"
| "num_div x NaN = NaN"
| "num_div (Fin a) (Fin b) = (if b = 0 then infinity_of_sign (sgn a) else Fin (a / b))"
| "num_div (Fin a) y = Fin 0"
| "num_div x (Fin b) = infinity_of_sign (sign_of x * (if b < 0 then - 1 else 1))"
| "num_div x y = NaN"

text \<open>\<open>Math.round\<close>: the nearest integer, a tie going up.\<close>

fun math_round :: "number \<Rightarrow> number" where
  "math_round (Fin x) = Fin (of_int \<lfloor>x + 1 / 2\<rfloor>)"
| "math_round n = n"

text \<open>
  \<open>Number.prototype.toFixed(1)\<close> followed by unary plus: the value rounded to one decimal,
  a tie going away from zero.
\<close>

definition toFixed1 :: "rat \<Rightarrow> rat" where
  "toFixed1 x =
     (if x < 0 then - (of_int \<lfloor>(- x) * 10 + 1 / 2\<rfloor> / 10)
      else of_int \<lfloor>x * 10 + 1 / 2\<rfloor> / 10)"

section \<open>Object literals read by a computed key\<close>

text \<open>
  \<open>table[key]\<close> on an object literal finds the literal's own entries and, failing that, the
  members every object inherits from \<open>Object.prototype\<close>; only then is it \<open>undefined\<close>.
\<close>

datatype 'a property = Own 'a | Inherited | Missing

definition object_prototype_members :: "string list" where
  "object_prototype_members =
     [''constructor'', ''__defineGetter__'', ''__defineSetter__'', ''hasOwnProperty'',
      ''__lookupGetter__'', ''__lookupSetter__'', ''isPrototypeOf'', ''propertyIsEnumerable'',
      ''toString'', ''valueOf'', ''__proto__'', ''toLocaleString'']"

definition js_get :: "(string \<times> 'a) list \<Rightarrow> string \<Rightarrow> 'a property" where
  "js_get table key =
     (case map_of table key of
        Some v \<Rightarrow> Own v
      | None \<Rightarrow> if key \<in> set object_prototype_members then Inherited else Missing)"

text \<open>Decimal digits of a natural number, as template literals print an HTTP status.\<close>

function decimal :: "nat \<Rightarrow> string" where
  "decimal n = (if n < 10 then [''0123456789'' ! n] else decimal (n div 10) @ [''0123456789'' ! (n mod 10)])"
  by pat_completeness auto
termination
  by (relation "measure id") auto

declare decimal.simps [simp del]

section \<open>The web client: catalogues (App.jsx)\<close>

record framework =
  fw_id :: string
  fw_name :: string
  accent :: string
  description :: string
  strengths :: "string list"

definition frameworks :: "framework list" where
  "frameworks =
    [\<lparr>fw_id = ''langgraph'', fw_name = ''LangGraph'', accent = ''#8ef1ff'',
      description = ''Graph-first control with tool-calling and guardrails.'',
      strengths = [''branch-safe'', ''memory aware'', ''deterministic'']\<rparr>,
     \<lparr>fw_id = ''autogen'', fw_name = ''AutoGen'', accent = ''#f5c66d'',
      description = ''Conversational multi-agent orchestration with swappable runtimes.'',
      strengths = [''negotiation'', ''lightweight'', ''multi-round'']\<rparr>,
     \<lparr>fw_id = ''crewai'', fw_name = ''CrewAI'', accent = ''#c7a0ff'',
      description = ''Role-based agent crews with task decomposition and reviews.'',
      strengths = [''role clarity'', ''reviews'', ''handoffs'']\<rparr>,
     \<lparr>fw_id = ''llamaindex'', fw_name = ''LlamaIndex'', accent = ''#7df1c3'',
      description = ''Retrieval-centric agent graphs with observability hooks.'',
      strengths = [''retrieval'', ''evaluations'', ''schema aware'']\<rparr>]"

record model =
  m_id :: string
  m_name :: string
  vendor :: string
  costPer1k :: rat
  style :: string

definition models :: "model list" where
  "models =
    [\<lparr>m_id = ''gpt-41'', m_name = ''GPT-4.1'', vendor = ''OpenAI'',
      costPer1k = 4 / 1000, style = ''analysis''\<rparr>,
     \<lparr>m_id = ''claude-37'', m_name = ''Claude 3.7 Sonnet'', vendor = ''Anthropic'',
      costPer1k = 35 / 10000, style = ''reasoned''\<rparr>,
     \<lparr>m_id = ''llama-33'', m_name = ''Llama 3.3 70B'', vendor = ''Meta'',
      costPer1k = 15 / 10000, style = ''open-weight''\<rparr>,
     \<lparr>m_id = ''gemini-20'', m_name = ''Gemini 2.0 Flash'', vendor = ''Google'',
      costPer1k = 2 / 1000, style = ''speed''\<rparr>]"

section \<open>The web client: one provider call (services/runAgent.js)\<close>

definition PROVIDER_MAP :: "(string \<times> string) list" where
  "PROVIDER_MAP =
     [(''langgraph'', ''/api/langgraph''), (''autogen'', ''/api/autogen''),
      (''crewai'', ''/api/crewai''), (''llamaindex'', ''/api/llamaindex'')]"

text \<open>
  The provider's JSON answer, in the shape the client expects of it (the source's comment:
  \<open>expect { output, tokens, cost, quality, coverage, steps }\<close>): every field may be absent
  or \<open>null\<close> (\<open>None\<close>), and a present metric is a number.
\<close>

record data =
  d_output :: "string option"
  d_steps :: "string list option"
  d_tokens :: "rat option"
  d_cost :: "rat option"
  d_quality :: "rat option"
  d_coverage :: "rat option"
  d_safety :: "rat option"

text \<open>
  What \<open>res.json()\<close> yields: a rejection with a message when the body is not JSON, the
  value \<open>null\<close> (reading \<open>data.output\<close> then throws a \<open>TypeError\<close> with the engine's message),
  or the data.
\<close>

datatype body = NotJson string | JsonNull string | Json data

text \<open>What \<open>fetch\<close> yields: a rejection with a message, or a response with its status.\<close>

datatype fetch_outcome = NetworkError string | Response nat body

text \<open>
  One exchange with a provider endpoint as the client observes it: the two readings of
  \<open>performance.now()\<close> (milliseconds) around it, and what \<open>fetch\<close> yielded.
\<close>

record exchange =
  started :: rat
  outcome :: fetch_outcome
  finished :: rat

type_synonym network = "string property \<Rightarrow> string \<Rightarrow> string \<Rightarrow> exchange"

record metrics =
  latency :: rat
  tokens :: rat
  cost :: rat
  quality :: rat
  coverage :: rat
  safety :: "rat option"

record agent_result =
  r_output :: "string option"
  r_steps :: "string list"
  r_metrics :: metrics

definition res_ok :: "nat \<Rightarrow> bool" where
  "res_ok status = (200 \<le> status \<and> status \<le> 299)"

text \<open>\<open>a ?? b\<close> on an optional value.\<close>

definition nullish_or :: "'a option \<Rightarrow> 'a \<Rightarrow> 'a" where
  "nullish_or a b = (case a of None \<Rightarrow> b | Some v \<Rightarrow> v)"

text \<open>
  \<open>runAgent\<close>: a thrown error or a rejected promise is \<open>Inl\<close> of its message. The endpoint
  handed to \<open>fetch\<close> is whatever the lookup found.
\<close>

definition runAgent :: "network \<Rightarrow> string \<Rightarrow> string \<Rightarrow> string \<Rightarrow> string + agent_result" where
  "runAgent net task frameworkId modelId =
     (let endpoint = js_get PROVIDER_MAP frameworkId in
      if endpoint = Missing \<or> endpoint = Own [] then Inl (''No endpoint for '' @ frameworkId)
      else
        let x = net endpoint task modelId in
        case outcome x of
          NetworkError msg \<Rightarrow> Inl msg
        | Response status b \<Rightarrow>
            if \<not> res_ok status then Inl (''Provider error: '' @ decimal status)
            else (case b of
                NotJson msg \<Rightarrow> Inl msg
              | JsonNull msg \<Rightarrow> Inl msg
              | Json d \<Rightarrow>
                  Inr \<lparr>r_output = d_output d,
                       r_steps = nullish_or (d_steps d) [],
                       r_metrics =
                         \<lparr>latency = toFixed1 ((finished x - started x) / 1000),
                          tokens = nullish_or (d_tokens d) 0,
                          cost = nullish_or (d_cost d) 0,
                          quality = nullish_or (d_quality d) 0,
                          coverage = nullish_or (d_coverage d) 0,
                          safety = Some (nullish_or (d_safety d) 0)\<rparr>\<rparr>))"

section \<open>The web client: dispatch and aggregation (App.jsx)\<close>

text \<open>
  A card of the run matrix. \<open>error\<close> is \<open>None\<close> where the object has no such property, and
  so is \<open>safety\<close> in its metrics. (A fulfilled card also repeats the combination under the
  keys \<open>fw\<close> and \<open>m\<close>, which nothing reads.)
\<close>

record run =
  run_id :: string
  run_framework :: framework
  run_model :: model
  error :: "string option"
  metrics :: metrics
  steps :: "string list"
  run_output :: "string option"

text \<open>Truthiness of an optional string: \<open>undefined\<close> and the empty string are falsy.\<close>

definition truthy :: "string option \<Rightarrow> bool" where
  "truthy v = (case v of None \<Rightarrow> False | Some s \<Rightarrow> s \<noteq> [])"

record highlights =
  fastest :: run
  cheapest :: run
  highestQuality :: run
  averageTokens :: number

text \<open>\<open>aggregateHighlights\<close>; \<open>None\<close> is the empty object \<open>{}\<close>.\<close>

definition aggregateHighlights :: "run list \<Rightarrow> highlights option" where
  "aggregateHighlights runs =
     (if length runs = 0 then None
      else
        let validRuns = filter (\<lambda>r. \<not> truthy (error r)) runs in
        if length validRuns = 0 then None
        else
          Some \<lparr>fastest =
                  foldl (\<lambda>best run. if latency (metrics run) < latency (metrics best) then run else best)
                    (validRuns ! 0) validRuns,
                cheapest =
                  foldl (\<lambda>best run. if cost (metrics run) < cost (metrics best) then run else best)
                    (validRuns ! 0) validRuns,
                highestQuality =
                  foldl (\<lambda>best run. if quality (metrics run) > quality (metrics best) then run else best)
                    (validRuns ! 0) validRuns,
                averageTokens =
                  math_round
                    (num_div (Fin (foldl (\<lambda>sum run. sum + tokens (metrics run)) 0 validRuns))
                       (Fin (of_nat (length validRuns))))\<rparr>)"

text \<open>
  \<open>Promise.allSettled\<close>: one slot per promise, filled when that promise settles. \<open>sched\<close> is
  the order in which the promises settle.
\<close>

definition allSettled :: "nat list \<Rightarrow> 'a list \<Rightarrow> 'a option list" where
  "allSettled sched ps =
     foldl (\<lambda>results i. if i < length ps then results[i := Some (ps ! i)] else results)
       (replicate (length ps) None) sched"

definition combos_of :: "string list \<Rightarrow> string list \<Rightarrow> (framework \<times> model) list" where
  "combos_of nextFrameworks nextModels =
     (let pickedFrameworks = filter (\<lambda>fw. fw_id fw \<in> set nextFrameworks) frameworks;
          pickedModels = filter (\<lambda>m. m_id m \<in> set nextModels) models
      in concat (map (\<lambda>fw. map (\<lambda>m. (fw, m)) pickedModels) pickedFrameworks))"

text \<open>The card built from a settled promise of the combination \<open>(fw, m)\<close>.\<close>

definition to_run :: "framework \<times> model \<Rightarrow> string + agent_result \<Rightarrow> run" where
  "to_run combo res =
     (case combo of (fw, m) \<Rightarrow>
        (case res of
           Inr v \<Rightarrow>
             \<lparr>run_id = fw_id fw @ ''-'' @ m_id m, run_framework = fw, run_model = m, error = None,
              metrics = r_metrics v, steps = r_steps v, run_output = r_output v\<rparr>
         | Inl message \<Rightarrow>
             \<lparr>run_id = fw_id fw @ ''-'' @ m_id m, run_framework = fw, run_model = m,
              error = Some (if message = [] then ''Failed'' else message),
              metrics = \<lparr>latency = 0, tokens = 0, cost = 0, quality = 0, coverage = 0,
                         safety = None\<rparr>,
              steps = [], run_output = Some ''Error''\<rparr>))"

text \<open>
  \<open>buildComparisons\<close>: the list handed to the final \<open>setRuns\<close>, or \<open>None\<close> while some promise
  has not settled (the \<open>await\<close> does not return). The first \<open>setRuns\<close>, which marks the
  previous cards as loading, does not reach that list.
\<close>

definition buildComparisons ::
  "network \<Rightarrow> nat list \<Rightarrow> string \<Rightarrow> string list \<Rightarrow> string list \<Rightarrow> run list option" where
  "buildComparisons net sched nextTask nextFrameworks nextModels =
     (let combos = combos_of nextFrameworks nextModels;
          results = allSettled sched
            (map (\<lambda>(fw, m). runAgent net nextTask (fw_id fw) (m_id m)) combos)
      in if list_all (\<lambda>res. res \<noteq> None) results
         then Some (map (\<lambda>i. to_run (combos ! i) (the (results ! i))) [0..<length results])
         else None)"

section \<open>The API server: JSON values\<close>

text \<open>
  What \<open>JSON.parse\<close> and \<open>res.json()\<close> produce, together with \<open>undefined\<close> (the value of a
  missing property). An object is the list of its entries, with distinct keys. Strings are
  sequences of 8-bit characters.
\<close>

datatype jsval =
    JUndefined
  | JNull
  | JBool bool
  | JNum number
  | JStr string
  | JArr "jsval list"
  | JObj "(string \<times> jsval) list"

text \<open>Truthiness, as \<open>||\<close> and \<open>!\<close> test it.\<close>

fun js_truthy :: "jsval \<Rightarrow> bool" where
  "js_truthy JUndefined = False"
| "js_truthy JNull = False"
| "js_truthy (JBool b) = b"
| "js_truthy (JNum (Fin x)) = (x \<noteq> 0)"
| "js_truthy (JNum NaN) = False"
| "js_truthy (JNum n) = True"
| "js_truthy (JStr s) = (s \<noteq> [])"
| "js_truthy (JArr xs) = True"
| "js_truthy (JObj kvs) = True"

text \<open>\<open>a || b\<close>.\<close>

definition js_or :: "jsval \<Rightarrow> jsval \<Rightarrow> jsval" where
  "js_or a b = (if js_truthy a then a else b)"

text \<open>
  \<open>v.name\<close> for the names this program reads (\<open>choices\<close>, \<open>message\<close>, \<open>content\<close>, \<open>usage\<close>,
  \<open>total_tokens\<close>, \<open>output\<close>, \<open>logs\<close>, \<open>steps\<close>, \<open>quality\<close>, \<open>coverage\<close>, \<open>error\<close>), none of
  which a prototype supplies. \<open>None\<close> is the \<open>TypeError\<close> thrown on \<open>undefined\<close> and \<open>null\<close>.
\<close>

definition get_prop :: "jsval \<Rightarrow> string \<Rightarrow> jsval option" where
  "get_prop v name =
     (case v of
        JUndefined \<Rightarrow> None
      | JNull \<Rightarrow> None
      | JObj kvs \<Rightarrow> Some (case map_of kvs name of Some x \<Rightarrow> x | None \<Rightarrow> JUndefined)
      | _ \<Rightarrow> Some JUndefined)"

text \<open>\<open>v[0]\<close>.\<close>

definition get_first :: "jsval \<Rightarrow> jsval option" where
  "get_first v =
     (case v of
        JUndefined \<Rightarrow> None
      | JNull \<Rightarrow> None
      | JArr xs \<Rightarrow> Some (case xs of [] \<Rightarrow> JUndefined | x # _ \<Rightarrow> x)
      | JStr s \<Rightarrow> Some (case s of [] \<Rightarrow> JUndefined | c # _ \<Rightarrow> JStr [c])
      | JObj kvs \<Rightarrow> Some (case map_of kvs ''0'' of Some x \<Rightarrow> x | None \<Rightarrow> JUndefined)
      | _ \<Rightarrow> Some JUndefined)"

text \<open>
  The engine's conversions between strings and numbers and its JSON parser (\<open>None\<close> is the
  \<open>SyntaxError\<close>) are parameters of the model.
\<close>

record runtime =
  StringToNumber :: "string \<Rightarrow> number"
  NumberToString :: "number \<Rightarrow> string"
  JSON_parse :: "string \<Rightarrow> jsval option"

fun join_comma :: "string list \<Rightarrow> string" where
  "join_comma [] = []"
| "join_comma [s] = s"
| "join_comma (s # t # ts) = s @ '','' @ join_comma (t # ts)"

text \<open>\<open>ToString\<close>: an array joins its elements, a plain object prints its tag.\<close>

fun to_string :: "runtime \<Rightarrow> jsval \<Rightarrow> string" where
  "to_string rt JUndefined = ''undefined''"
| "to_string rt JNull = ''null''"
| "to_string rt (JBool b) = (if b then ''true'' else ''false'')"
| "to_string rt (JNum n) = NumberToString rt n"
| "to_string rt (JStr s) = s"
| "to_string rt (JArr xs) =
     join_comma (map (\<lambda>x. if x = JUndefined \<or> x = JNull then [] else to_string rt x) xs)"
| "to_string rt (JObj kvs) = ''[object Object]''"

text \<open>\<open>ToNumber\<close>; the tag of a plain object is not a numeric literal.\<close>

fun to_number :: "runtime \<Rightarrow> jsval \<Rightarrow> number" where
  "to_number rt JUndefined = NaN"
| "to_number rt JNull = Fin 0"
| "to_number rt (JBool b) = Fin (if b then 1 else 0)"
| "to_number rt (JNum n) = n"
| "to_number rt (JStr s) = StringToNumber rt s"
| "to_number rt (JArr xs) = StringToNumber rt (to_string rt (JArr xs))"
| "to_number rt (JObj kvs) = NaN"

text \<open>\<open>String.prototype.trim\<close>, \<open>includes\<close> and the character class \<open>[a-zA-Z0-9-]\<close>.\<close>

definition is_space :: "char \<Rightarrow> bool" where
  "is_space c = (c \<in> set [CHR 0x09, CHR 0x0A, CHR 0x0B, CHR 0x0C, CHR 0x0D, CHR 0x20, CHR 0xA0])"

definition trim :: "string \<Rightarrow> string" where
  "trim s = rev (dropWhile is_space (rev (dropWhile is_space s)))"

definition is_key_char :: "char \<Rightarrow> bool" where
  "is_key_char c =
     (c \<in> set ''abcdefghijklmnopqrstuvwxyzABCDEFGHIJKLMNOPQRSTUVWXYZ0123456789-'')"

fun js_includes :: "string \<Rightarrow> string \<Rightarrow> bool" where
  "js_includes [] t = (t = [])"
| "js_includes (c # cs) t = (prefix t (c # cs) \<or> js_includes cs t)"

section \<open>The API server: the simulated adapters\<close>

definition priceTable :: "(string \<times> rat) list" where
  "priceTable =
     [(''gpt-41'', 4 / 1000), (''claude-37'', 35 / 10000), (''llama-33'', 15 / 10000),
      (''gemini-20'', 2 / 1000)]"

text \<open>
  The factor \<open>(priceTable[model] || 0.002)\<close> as the multiplication reads it. An inherited
  member is a function or an object: truthy, and \<open>NaN\<close> as a number.
\<close>

definition price_or_default :: "string \<Rightarrow> number" where
  "price_or_default model =
     (case js_get priceTable model of
        Own rate \<Rightarrow> if rate \<noteq> 0 then Fin rate else Fin (2 / 1000)
      | Inherited \<Rightarrow> NaN
      | Missing \<Rightarrow> Fin (2 / 1000))"

text \<open>
  What an adapter does besides returning: it waits, and it calls the upstream (at the given
  address with the given \<open>Authorization\<close> header). Console output is not recorded.
\<close>

datatype effect = Sleep nat | Fetch string string

text \<open>
  \<open>getMockResponse\<close>, after its pause of 100 ms. (The third parameter is not used.)
\<close>

definition getMockResponse :: "string \<Rightarrow> string \<Rightarrow> string list \<Rightarrow> effect list \<times> jsval" where
  "getMockResponse framework task styles =
     ([Sleep 100],
      JObj
       [(''output'', JStr (''[MOCK '' @ framework @ '' OUTPUT for '' @ [CHR 0x22] @ task @ [CHR 0x22]
           @ '']\<newline>\<newline>This is a simulated response because no valid OpenAI key was found (or the key failed).''
           @ ''\<newline>\<newline>Simulated reasoning:\<newline>- Step 1: Mapped task to '' @ framework
           @ '' nodes.\<newline>- Step 2: Executed graph.\<newline>- Step 3: Verified output.'')),
        (''tokens'', JNum (Fin 250)),
        (''cost'', JNum (Fin (25 / 10000))),
        (''steps'', JArr [JStr (''Initialized '' @ framework), JStr ''Processed Input'',
                         JStr ''Generated Response'', JStr ''Finalized'']),
        (''quality'', JNum (Fin 95)),
        (''coverage'', JNum (Fin 98)),
        (''safety'', JNum (Fin 100)),
        (''metrics'', JObj
          [(''latency'', JNum (Fin (15 / 10))),
           (''tokens'', JNum (Fin 250)),
           (''cost'', JNum (Fin (25 / 10000))),
           (''quality'', JNum (Fin 95)),
           (''coverage'', JNum (Fin 98)),
           (''safety'', JNum (Fin 100))])])"

text \<open>
  What the one call of \<open>fetch\<close> yields: a rejection, or a response with its status, what
  \<open>res.text()\<close> yields (\<open>None\<close>: it rejects) and what \<open>res.json()\<close> yields (\<open>None\<close>: it
  rejects).
\<close>

datatype upstream = Unreachable | Answer nat "string option" "jsval option"

record server_env =
  OPENAI_API_KEY :: "string option"
  openai :: upstream

definition rawKey_of :: "string option \<Rightarrow> string" where
  "rawKey_of key = (case key of None \<Rightarrow> [] | Some k \<Rightarrow> if k = [] then [] else trim k)"

definition apiKey_of :: "string \<Rightarrow> string" where
  "apiKey_of rawKey = filter is_key_char rawKey"

text \<open>\<open>JSON.parse(data.choices[0].message.content)\<close>; \<open>None\<close> is a thrown exception.\<close>

definition parsed_result :: "runtime \<Rightarrow> jsval \<Rightarrow> jsval option" where
  "parsed_result rt d =
     do {
       choices \<leftarrow> get_prop d ''choices'';
       choice \<leftarrow> get_first choices;
       message \<leftarrow> get_prop choice ''message'';
       content \<leftarrow> get_prop message ''content'';
       JSON_parse rt (to_string rt content)
     }"

text \<open>\<open>data.usage.total_tokens\<close>.\<close>

definition usage_total_tokens :: "jsval \<Rightarrow> jsval option" where
  "usage_total_tokens d = do { usage \<leftarrow> get_prop d ''usage''; get_prop usage ''total_tokens'' }"

text \<open>
  The body of the \<open>try\<close> block once \<open>fetch\<close> has answered; \<open>None\<close> is a thrown exception.
  The request itself (the simulator model \<open>gpt-4o\<close>, the role-play prompt, the task and the
  target model) does not enter: whatever is sent, the upstream's answer is a parameter.
\<close>

definition simulate_try ::
  "runtime \<Rightarrow> upstream \<Rightarrow> string \<Rightarrow> string \<Rightarrow> string \<Rightarrow> string list \<Rightarrow> (effect list \<times> jsval) option" where
  "simulate_try rt up task model framework styles =
     (case up of
        Unreachable \<Rightarrow> None
      | Answer status text json \<Rightarrow>
          if \<not> res_ok status then
            (case text of
               None \<Rightarrow> None
             | Some err \<Rightarrow>
                 if status = 401 \<or> status = 429 \<or> js_includes err ''invalid_api_key''
                 then Some (getMockResponse framework task styles)
                 else None)
          else
            (case json of
               None \<Rightarrow> None
             | Some d \<Rightarrow>
                 do {
                   result \<leftarrow> parsed_result rt d;
                   total_tokens \<leftarrow> usage_total_tokens d;
                   let estimatedCost =
                     num_mul (num_div (to_number rt total_tokens) (Fin 1000))
                       (price_or_default model);
                   out \<leftarrow> get_prop result ''output'';
                   logs \<leftarrow> get_prop result ''logs'';
                   result_steps \<leftarrow> get_prop result ''steps'';
                   result_quality \<leftarrow> get_prop result ''quality'';
                   result_coverage \<leftarrow> get_prop result ''coverage'';
                   Some ([],
                     JObj
                      [(''output'', JStr (to_string rt out @ ''\<newline>\<newline>---\<newline>LOGS:\<newline>''
                          @ to_string rt logs)),
                       (''tokens'', total_tokens),
                       (''cost'', JNum estimatedCost),
                       (''steps'', result_steps),
                       (''quality'', js_or result_quality (JNum (Fin 85))),
                       (''coverage'', js_or result_coverage (JNum (Fin 90))),
                       (''safety'', JNum (Fin 95))])
                 }))"

text \<open>
  \<open>simulateAgent\<close>: the effects in order, and the object returned. The \<open>catch\<close> block turns
  every exception of the \<open>try\<close> block into the mock response.
\<close>

definition simulateAgent ::
  "runtime \<Rightarrow> server_env \<Rightarrow> string \<Rightarrow> string \<Rightarrow> string \<Rightarrow> string list \<Rightarrow> string
     \<Rightarrow> effect list \<times> jsval" where
  "simulateAgent rt env task model framework styles stepsHint =
     (let rawKey = rawKey_of (OPENAI_API_KEY env);
          apiKey = apiKey_of rawKey
      in if apiKey = [] \<or> \<not> prefix ''sk-'' apiKey \<or> apiKey = ''sk-placeholder''
            \<or> js_includes rawKey ''placeholder''
         then getMockResponse framework task styles
         else
           let call = Fetch ''https://api.openai.com/v1/chat/completions'' (''Bearer '' @ apiKey)
           in case simulate_try rt (openai env) task model framework styles of
                Some (effects, response) \<Rightarrow> (call # effects, response)
              | None \<Rightarrow>
                  (case getMockResponse framework task styles of
                     (effects, response) \<Rightarrow> (call # effects, response)))"

text \<open>The four routes.\<close>

definition api_langgraph :: "runtime \<Rightarrow> server_env \<Rightarrow> string \<Rightarrow> string \<Rightarrow> effect list \<times> jsval" where
  "api_langgraph rt env task modelId =
     simulateAgent rt env task modelId ''LangGraph''
       [''Graph-structured'', ''Cyclic'', ''Stateful'', ''Precise control flow'']
       ''Define Graph State -> Node: Retrieve -> Node: Grade check -> Node: Generate -> Edge: End''"

definition api_autogen :: "runtime \<Rightarrow> server_env \<Rightarrow> string \<Rightarrow> string \<Rightarrow> effect list \<times> jsval" where
  "api_autogen rt env task modelId =
     simulateAgent rt env task modelId ''AutoGen''
       [''Conversational'', ''Multi-agent chat'', ''Negotiation'', ''Verbose'']
       ''UserProxy initiates -> Assistant replies -> UserProxy critiques -> Assistant refines -> Termination''"

definition api_crewai :: "runtime \<Rightarrow> server_env \<Rightarrow> string \<Rightarrow> string \<Rightarrow> effect list \<times> jsval" where
  "api_crewai rt env task modelId =
     simulateAgent rt env task modelId ''CrewAI''
       [''Role-playing'', ''Task delegation'', ''Hierarchical'', ''Structured'']
       ''Researcher gathers info -> Manager delegates -> Writer compiles -> Reviewer approves''"

definition api_llamaindex :: "runtime \<Rightarrow> server_env \<Rightarrow> string \<Rightarrow> string \<Rightarrow> effect list \<times> jsval" where
  "api_llamaindex rt env task modelId =
     simulateAgent rt env task modelId ''LlamaIndex''
       [''Data-centric'', ''Retrieval-augmented'', ''Query engine'', ''Synthesizer'']
       ''Query breakdown -> Retrieve nodes -> Rerank results -> Synthesize response''"

section \<open>Notions used to state the properties\<close>

text \<open>The records without the error flag, in input order.\<close>

definition valid_records :: "run list \<Rightarrow> run list" where
  "valid_records runs = filter (\<lambda>r. \<not> truthy (error r)) runs"

text \<open>
  The first element of a list whose key is least (greatest) among the list's elements;
  \<open>None\<close> for the empty list.
\<close>

definition first_with_least :: "('a \<Rightarrow> rat) \<Rightarrow> 'a list \<Rightarrow> 'a option" where
  "first_with_least k xs = find (\<lambda>x. \<forall>y\<in>set xs. k x \<le> k y) xs"

definition first_with_greatest :: "('a \<Rightarrow> rat) \<Rightarrow> 'a list \<Rightarrow> 'a option" where
  "first_with_greatest k xs = find (\<lambda>x. \<forall>y\<in>set xs. k y \<le> k x) xs"

text \<open>The arithmetic mean of the tokens of a list of records.\<close>

definition mean_tokens :: "run list \<Rightarrow> rat" where
  "mean_tokens rs = sum_list (map (\<lambda>r. tokens (metrics r)) rs) / of_nat (length rs)"

text \<open>What \<open>runAgent\<close> yields for a combination.\<close>

definition outcome_of :: "network \<Rightarrow> string \<Rightarrow> framework \<times> model \<Rightarrow> string + agent_result" where
  "outcome_of net task combo = runAgent net task (fw_id (fst combo)) (m_id (snd combo))"

text \<open>The guard of \<open>simulateAgent\<close> that sends a credential to the mock response.\<close>

definition credential_rejected :: "string option \<Rightarrow> bool" where
  "credential_rejected key =
     (let rawKey = rawKey_of key; apiKey = apiKey_of rawKey
      in apiKey = [] \<or> \<not> prefix ''sk-'' apiKey \<or> apiKey = ''sk-placeholder''
         \<or> js_includes rawKey ''placeholder'')"

text \<open>
  A success of the live path: the credential passes the guard, the upstream answers with a
  2xx status and JSON, the content of its first choice parses, the usage is there, and the
  parsed value is neither \<open>null\<close> nor \<open>undefined\<close>. The pair is the parsed result and the
  reported token count.
\<close>

definition live_result :: "runtime \<Rightarrow> server_env \<Rightarrow> (jsval \<times> jsval) option" where
  "live_result rt env =
     (if credential_rejected (OPENAI_API_KEY env) then None
      else
        (case openai env of
           Unreachable \<Rightarrow> None
         | Answer status body_text json \<Rightarrow>
             if \<not> res_ok status then None
             else
               (case json of
                  None \<Rightarrow> None
                | Some d \<Rightarrow>
                    do {
                      result \<leftarrow> parsed_result rt d;
                      total_tokens \<leftarrow> usage_total_tokens d;
                      _ \<leftarrow> get_prop result ''output'';
                      Some (result, total_tokens)
                    })))"

section \<open>Sample inputs\<close>

text \<open>
  Four cards: a failed one, two successful ones that agree on latency, cost and quality,
  and a slower, dearer, weaker one.
\<close>

definition sample_fulfilled :: "rat \<Rightarrow> rat \<Rightarrow> rat \<Rightarrow> rat \<Rightarrow> string + agent_result" where
  "sample_fulfilled l t c q =
     Inr \<lparr>r_output = Some ''ok'', r_steps = [''Parsed task''],
          r_metrics = \<lparr>latency = l, tokens = t, cost = c, quality = q, coverage = 90,
                       safety = Some 95\<rparr>\<rparr>"

definition sample_runs :: "run list" where
  "sample_runs =
     [to_run (frameworks ! 0, models ! 0) (Inl ''Provider error: 500''),
      to_run (frameworks ! 0, models ! 1) (sample_fulfilled (3 / 2) 250 (25 / 10000) 80),
      to_run (frameworks ! 1, models ! 0) (sample_fulfilled (3 / 2) 251 (25 / 10000) 80),
      to_run (frameworks ! 1, models ! 1) (sample_fulfilled 2 301 (4 / 1000) 70)]"

text \<open>
  A network on which the LangGraph endpoint answers with a well-formed record after 1540 ms
  and every other endpoint answers 500.
\<close>

definition sample_network :: network where
  "sample_network endpoint task modelId =
     (if endpoint = Own ''/api/langgraph''
      then \<lparr>started = 0,
            outcome = Response 200
              (Json \<lparr>d_output = Some ''ok'', d_steps = Some [''Initialized LangGraph''],
                      d_tokens = Some 250, d_cost = Some (25 / 10000), d_quality = Some 95,
                      d_coverage = Some 98, d_safety = Some 100\<rparr>),
            finished = 1540\<rparr>
      else \<lparr>started = 0, outcome = Response 500 (NotJson ''Unexpected token''),
            finished = 20\<rparr>)"

text \<open>
  An upstream completion whose first choice carries a result with zero scores, and a
  runtime that parses that content. The runtime's conversions between strings and numbers
  are left unspecified: the samples hold numbers where numbers are read and strings where
  strings are read.
\<close>

definition sample_content :: string where
  \<open>sample_content =
     ''{"output":"Done","steps":["Plan","Act","Check","Answer"],"logs":"[graph] ok","quality":0,"coverage":0}''\<close>

definition sample_result_object :: jsval where
  "sample_result_object =
     JObj [(''output'', JStr ''Done''),
           (''steps'', JArr [JStr ''Plan'', JStr ''Act'', JStr ''Check'', JStr ''Answer'']),
           (''logs'', JStr ''[graph] ok''),
           (''quality'', JNum (Fin 0)),
           (''coverage'', JNum (Fin 0))]"

definition sample_completion :: jsval where
  "sample_completion =
     JObj [(''choices'',
             JArr [JObj [(''message'',
                           JObj [(''role'', JStr ''assistant''), (''content'', JStr sample_content)])]]),
           (''usage'',
             JObj [(''prompt_tokens'', JNum (Fin 400)), (''completion_tokens'', JNum (Fin 600)),
                   (''total_tokens'', JNum (Fin 1000))])]"

definition sample_runtime :: runtime where
  "sample_runtime =
     \<lparr>StringToNumber = undefined, NumberToString = undefined,
      JSON_parse = (\<lambda>s. if s = sample_content then Some sample_result_object else None)\<rparr>"

definition sample_env :: "string option \<Rightarrow> upstream \<Rightarrow> server_env" where
  "sample_env key up = \<lparr>OPENAI_API_KEY = key, openai = up\<rparr>"

section \<open>Aggregation\<close>

subsection \<open>The reducers\<close>

text \<open>
  Each highlight is a left fold that keeps the record met first among those with the best
  key. The result is described by its position before it is described by \<open>find\<close>.
\<close>

lemma reduce_first_least:
  fixes k :: "'a \<Rightarrow> rat"
  assumes "ys \<noteq> []"
  shows "\<exists>i<length ys.
           foldl (\<lambda>best x. if k x < k best then x else best) (hd ys) (tl ys) = ys ! i
         \<and> (\<forall>j<length ys. k (ys ! i) \<le> k (ys ! j))
         \<and> (\<forall>j<i. k (ys ! i) < k (ys ! j))"
  using assms
proof (induction ys rule: rev_nonempty_induct)
  case (single x)
  show ?case by simp
next
  case (snoc x ys)
  let ?f = "\<lambda>best x. if k x < k best then x else best"
  from snoc.IH obtain i where i: "i < length ys" "foldl ?f (hd ys) (tl ys) = ys ! i"
    and least: "\<forall>j<length ys. k (ys ! i) \<le> k (ys ! j)"
    and first: "\<forall>j<i. k (ys ! i) < k (ys ! j)"
    by blast
  have fold: "foldl ?f (hd (ys @ [x])) (tl (ys @ [x])) = ?f (ys ! i) x"
    using snoc.hyps i by simp
  show ?case
  proof (cases "k x < k (ys ! i)")
    case True
    have "\<forall>j<length (ys @ [x]). k x \<le> k ((ys @ [x]) ! j)"
    proof (intro allI impI)
      fix j assume "j < length (ys @ [x])"
      then consider "j < length ys" | "j = length ys" by force
      then show "k x \<le> k ((ys @ [x]) ! j)"
      proof cases
        case 1
        then have "k (ys ! i) \<le> k (ys ! j)" using least by blast
        then show ?thesis using True 1 by (simp add: nth_append)
      next
        case 2
        then show ?thesis by simp
      qed
    qed
    moreover have "\<forall>j<length ys. k x < k ((ys @ [x]) ! j)"
    proof (intro allI impI)
      fix j assume j: "j < length ys"
      then have "k (ys ! i) \<le> k (ys ! j)" using least by blast
      then show "k x < k ((ys @ [x]) ! j)"
        using True j by (simp add: nth_append)
    qed
    ultimately show ?thesis
      unfolding fold using True by (intro exI[of _ "length ys"]) simp
  next
    case False
    have "\<forall>j<length (ys @ [x]). k (ys ! i) \<le> k ((ys @ [x]) ! j)"
    proof (intro allI impI)
      fix j assume "j < length (ys @ [x])"
      then consider "j < length ys" | "j = length ys" by force
      then show "k (ys ! i) \<le> k ((ys @ [x]) ! j)"
      proof cases
        case 1
        then show ?thesis using least by (simp add: nth_append)
      next
        case 2
        then show ?thesis using False by simp
      qed
    qed
    moreover have "\<forall>j<i. k (ys ! i) < k ((ys @ [x]) ! j)"
      using first i by (simp add: nth_append)
    ultimately show ?thesis
      unfolding fold using False i by (intro exI[of _ i]) (simp add: nth_append)
  qed
qed

text \<open>The reducer starts from the first element and visits it again.\<close>

lemma reduce_from_first:
  fixes k :: "'a \<Rightarrow> rat"
  assumes "ys \<noteq> []"
  shows "foldl (\<lambda>best x. if k x < k best then x else best) (ys ! 0) ys
       = foldl (\<lambda>best x. if k x < k best then x else best) (hd ys) (tl ys)"
  using assms by (cases ys) simp_all

lemma reduce_find_least:
  fixes k :: "'a \<Rightarrow> rat"
  assumes "ys \<noteq> []"
  shows "find (\<lambda>x. \<forall>y\<in>set ys. k x \<le> k y) ys
       = Some (foldl (\<lambda>best x. if k x < k best then x else best) (ys ! 0) ys)"
proof -
  from reduce_first_least [OF assms, of k] obtain i where i: "i < length ys"
    and r: "foldl (\<lambda>best x. if k x < k best then x else best) (hd ys) (tl ys) = ys ! i"
    and least: "\<forall>j<length ys. k (ys ! i) \<le> k (ys ! j)"
    and first: "\<forall>j<i. k (ys ! i) < k (ys ! j)"
    by blast
  have "\<forall>y\<in>set ys. k (ys ! i) \<le> k y"
    using least by (auto simp: in_set_conv_nth)
  moreover have "\<forall>j<i. \<not> (\<forall>y\<in>set ys. k (ys ! j) \<le> k y)"
  proof (intro allI impI notI)
    fix j assume "j < i" and all: "\<forall>y\<in>set ys. k (ys ! j) \<le> k y"
    then have "k (ys ! i) < k (ys ! j)" using first by blast
    moreover have "k (ys ! j) \<le> k (ys ! i)" using all i by simp
    ultimately show False by simp
  qed
  ultimately have "find (\<lambda>x. \<forall>y\<in>set ys. k x \<le> k y) ys = Some (ys ! i)"
    using i unfolding find_Some_iff by blast
  then show ?thesis
    using r reduce_from_first [OF assms, of k] by simp
qed

lemma foldl_add_sum_list:
  fixes g :: "'a \<Rightarrow> rat"
  shows "foldl (\<lambda>sum x. sum + g x) a xs = a + sum_list (map g xs)"
  by (induction xs arbitrary: a) (simp_all add: add.assoc)

lemma round_half_up_nearest:
  fixes x :: rat
  shows "\<bar>of_int \<lfloor>x + 1 / 2\<rfloor> - x\<bar> \<le> 1 / 2"
  by linarith

lemma reduce_find_greatest:
  fixes k :: "'a \<Rightarrow> rat"
  assumes "ys \<noteq> []"
  shows "find (\<lambda>x. \<forall>y\<in>set ys. k y \<le> k x) ys
       = Some (foldl (\<lambda>best x. if k x > k best then x else best) (ys ! 0) ys)"
  using reduce_find_least [OF assms, of "\<lambda>x. - k x"] by simp

lemma aggregate_Some:
  assumes "valid_records runs \<noteq> []"
  shows "aggregateHighlights runs =
     Some \<lparr>fastest = the (first_with_least (\<lambda>r. latency (metrics r)) (valid_records runs)),
           cheapest = the (first_with_least (\<lambda>r. cost (metrics r)) (valid_records runs)),
           highestQuality = the (first_with_greatest (\<lambda>r. quality (metrics r)) (valid_records runs)),
           averageTokens = Fin (of_int \<lfloor>mean_tokens (valid_records runs) + 1 / 2\<rfloor>)\<rparr>"
proof -
  let ?vs = "valid_records runs"
  have ne: "runs \<noteq> []" using assms by (auto simp: valid_records_def)
  have len: "of_nat (length ?vs) \<noteq> (0::rat)" using assms by simp
  have avg: "math_round (num_div (Fin (foldl (\<lambda>sum run. sum + tokens (metrics run)) 0 ?vs))
                 (Fin (of_nat (length ?vs))))
           = Fin (of_int \<lfloor>mean_tokens ?vs + 1 / 2\<rfloor>)"
    using len by (simp add: foldl_add_sum_list mean_tokens_def)
  show ?thesis
    using assms ne
    unfolding aggregateHighlights_def Let_def first_with_least_def first_with_greatest_def
      valid_records_def [symmetric] avg
    by (simp add: reduce_find_least reduce_find_greatest)
qed

lemma first_with_greatest_Some:
  assumes "first_with_greatest k xs = Some r"
  shows "r \<in> set xs \<and> (\<forall>y\<in>set xs. k y \<le> k r)"
  using assms unfolding first_with_greatest_def find_Some_iff by auto

subsection \<open>The empty state\<close>

text \<open>
  C6. When every record of the input carries the error flag (the empty input included),
  \<open>aggregateHighlights\<close> returns the empty object \<open>{}\<close>: no highlight is computed, so none
  can be \<open>NaN\<close> or \<open>undefined\<close>.
\<close>

theorem aggregateHighlights_no_valid:
  assumes "\<forall>r \<in> set runs. truthy (error r)"
  shows "aggregateHighlights runs = None"
proof -
  have "filter (\<lambda>r. \<not> truthy (error r)) runs = []"
    using assms by (simp add: filter_empty_conv)
  then show ?thesis
    by (simp add: aggregateHighlights_def)
qed

text \<open>A batch of one failed card, and the empty batch.\<close>

theorem aggregateHighlights_no_valid_witness:
  "truthy (error (to_run (frameworks ! 0, models ! 0) (Inl ''Provider error: 500'')))
   \<and> aggregateHighlights [to_run (frameworks ! 0, models ! 0) (Inl ''Provider error: 500'')] = None
   \<and> aggregateHighlights [] = None"
  using aggregateHighlights_no_valid [of "[to_run (frameworks ! 0, models ! 0) (Inl ''Provider error: 500'')]"]
    aggregateHighlights_no_valid [of "[]"]
  by (simp add: to_run_def truthy_def)

subsection \<open>Ties\<close>

text \<open>
  C7. When some record is free of the error flag, \<open>aggregateHighlights\<close> returns highlights
  whose \<open>fastest\<close> is the first valid record with the least latency, whose \<open>cheapest\<close> is the
  first valid record with the least cost, and whose \<open>highestQuality\<close> is the first valid
  record with the greatest quality: among records that share the extremal value the
  earliest in the input wins.
\<close>

theorem aggregateHighlights_first_extremal:
  assumes "valid_records runs \<noteq> []"
  shows "\<exists>h. aggregateHighlights runs = Some h
     \<and> first_with_least (\<lambda>r. latency (metrics r)) (valid_records runs) = Some (fastest h)
     \<and> first_with_least (\<lambda>r. cost (metrics r)) (valid_records runs) = Some (cheapest h)
     \<and> first_with_greatest (\<lambda>r. quality (metrics r)) (valid_records runs) = Some (highestQuality h)"
proof -
  let ?vs = "valid_records runs"
  have "first_with_least (\<lambda>r. latency (metrics r)) ?vs \<noteq> None"
    and "first_with_least (\<lambda>r. cost (metrics r)) ?vs \<noteq> None"
    using reduce_find_least [OF assms] by (simp_all add: first_with_least_def)
  moreover have "first_with_greatest (\<lambda>r. quality (metrics r)) ?vs \<noteq> None"
    using reduce_find_least [OF assms, of "\<lambda>r. - quality (metrics r)"]
    by (simp add: first_with_greatest_def)
  ultimately show ?thesis
    using aggregate_Some [OF assms] by auto
qed

text \<open>
  In \<open>sample_runs\<close> the second and third cards tie on latency, cost and quality; the second
  wins all three.
\<close>

theorem aggregateHighlights_first_extremal_witness:
  "map_option (\<lambda>h. (run_id (fastest h), run_id (cheapest h), run_id (highestQuality h)))
     (aggregateHighlights sample_runs)
   = Some (''langgraph-claude-37'', ''langgraph-claude-37'', ''langgraph-claude-37'')"
proof -
  have ne: "valid_records sample_runs \<noteq> []"
    by (simp add: valid_records_def sample_runs_def to_run_def truthy_def sample_fulfilled_def)
  have vs: "valid_records sample_runs = tl sample_runs"
    by (simp add: valid_records_def sample_runs_def to_run_def truthy_def sample_fulfilled_def)
  from aggregateHighlights_first_extremal [OF ne] obtain h
    where h: "aggregateHighlights sample_runs = Some h"
      and f: "first_with_least (\<lambda>r. latency (metrics r)) (valid_records sample_runs) = Some (fastest h)"
      and c: "first_with_least (\<lambda>r. cost (metrics r)) (valid_records sample_runs) = Some (cheapest h)"
      and q: "first_with_greatest (\<lambda>r. quality (metrics r)) (valid_records sample_runs) = Some (highestQuality h)"
    by blast
  have "run_id (fastest h) = ''langgraph-claude-37''"
    using f [symmetric] unfolding vs
    by (simp add: first_with_least_def sample_runs_def to_run_def sample_fulfilled_def
        frameworks_def models_def)
  moreover have "run_id (cheapest h) = ''langgraph-claude-37''"
    using c [symmetric] unfolding vs
    by (simp add: first_with_least_def sample_runs_def to_run_def sample_fulfilled_def
        frameworks_def models_def)
  moreover have "run_id (highestQuality h) = ''langgraph-claude-37''"
    using q [symmetric] unfolding vs
    by (simp add: first_with_greatest_def sample_runs_def to_run_def sample_fulfilled_def
        frameworks_def models_def)
  ultimately show ?thesis using h by simp
qed

subsection \<open>Failed records take no part\<close>

text \<open>
  C8. When some record is free of the error flag, \<open>highestQuality\<close> is one of the records
  without the flag and no such record has a greater quality; \<open>averageTokens\<close> is the mean of
  the tokens of the records without the flag, rounded to the nearest integer (a tie going
  up).
\<close>

theorem aggregateHighlights_valid_only:
  assumes "valid_records runs \<noteq> []"
  shows "\<exists>h. aggregateHighlights runs = Some h
     \<and> highestQuality h \<in> set runs
     \<and> \<not> truthy (error (highestQuality h))
     \<and> (\<forall>r\<in>set runs. \<not> truthy (error r) \<longrightarrow>
           quality (metrics r) \<le> quality (metrics (highestQuality h)))
     \<and> averageTokens h = Fin (of_int \<lfloor>mean_tokens (valid_records runs) + 1 / 2\<rfloor>)
     \<and> \<bar>of_int \<lfloor>mean_tokens (valid_records runs) + 1 / 2\<rfloor> - mean_tokens (valid_records runs)\<bar>
           \<le> 1 / 2"
proof -
  let ?vs = "valid_records runs"
  let ?g = "first_with_greatest (\<lambda>r. quality (metrics r)) ?vs"
  have "?g \<noteq> None"
    using reduce_find_greatest [OF assms, of "\<lambda>r. quality (metrics r)"]
    by (simp add: first_with_greatest_def)
  then obtain r where r: "?g = Some r" by blast
  from first_with_greatest_Some [OF r]
  have "r \<in> set ?vs" and top: "\<forall>y\<in>set ?vs. quality (metrics y) \<le> quality (metrics r)"
    by blast+
  then have "r \<in> set runs" "\<not> truthy (error r)"
    and "\<forall>y\<in>set runs. \<not> truthy (error y) \<longrightarrow> quality (metrics y) \<le> quality (metrics r)"
    by (auto simp: valid_records_def)
  then show ?thesis
    using aggregate_Some [OF assms] r round_half_up_nearest [of "mean_tokens ?vs"]
    by simp
qed

text \<open>
  In \<open>sample_runs\<close> the failed card is left out: the mean is \<open>802 / 3\<close> over the three valid
  cards.
\<close>

theorem aggregateHighlights_valid_only_witness:
  "map_option (\<lambda>h. (error (highestQuality h), quality (metrics (highestQuality h)), averageTokens h))
     (aggregateHighlights sample_runs)
   = Some (None, 80, Fin 267)"
proof -
  have vs: "valid_records sample_runs = tl sample_runs"
    by (simp add: valid_records_def sample_runs_def to_run_def truthy_def sample_fulfilled_def)
  have ne: "valid_records sample_runs \<noteq> []"
    unfolding vs by (simp add: sample_runs_def)
  have m: "mean_tokens (tl sample_runs) = 802 / 3"
    by (simp add: mean_tokens_def sample_runs_def to_run_def sample_fulfilled_def)
  have fl: "\<lfloor>(802::rat) / 3 + 1 / 2\<rfloor> = 267"
    by (simp add: floor_eq_iff)
  from aggregateHighlights_valid_only [OF ne] obtain h
    where h: "aggregateHighlights sample_runs = Some h"
      and e: "\<not> truthy (error (highestQuality h))"
      and mem: "highestQuality h \<in> set sample_runs"
      and top: "\<forall>r\<in>set sample_runs. \<not> truthy (error r) \<longrightarrow>
           quality (metrics r) \<le> quality (metrics (highestQuality h))"
      and avg: "averageTokens h = Fin (of_int \<lfloor>mean_tokens (valid_records sample_runs) + 1 / 2\<rfloor>)"
    by blast
  have "averageTokens h = Fin 267"
    using avg unfolding vs m fl by simp
  moreover have "error (highestQuality h) = None \<and> quality (metrics (highestQuality h)) = 80"
    using mem e top
    by (auto simp: sample_runs_def to_run_def sample_fulfilled_def truthy_def)
  ultimately show ?thesis using h by simp
qed

section \<open>Dispatch\<close>

subsection \<open>Settling in any order\<close>

text \<open>
  Each settling promise writes its own slot, so once every promise has settled the slots
  hold the outcomes in the order of the promises, whatever the order of settling.
\<close>

lemma settle_nth:
  assumes "length acc = length ps" and "i < length ps"
  shows "foldl (\<lambda>results j. if j < length ps then results[j := Some (ps ! j)] else results) acc sched ! i
       = (if i \<in> set sched then Some (ps ! i) else acc ! i)"
  using assms
proof (induction sched arbitrary: acc)
  case Nil
  show ?case by simp
next
  case (Cons j sched)
  let ?acc = "if j < length ps then acc[j := Some (ps ! j)] else acc"
  have "length ?acc = length ps" using Cons.prems by simp
  from Cons.IH [OF this Cons.prems(2)] show ?case
    using Cons.prems by (auto simp: nth_list_update)
qed

lemma settle_length:
  "length (foldl (\<lambda>results j. if j < length ps then results[j := Some (ps ! j)] else results) acc sched)
   = length acc"
  by (induction sched arbitrary: acc) simp_all

lemma allSettled_nth:
  assumes "i < length ps"
  shows "allSettled sched ps ! i = (if i \<in> set sched then Some (ps ! i) else None)"
  unfolding allSettled_def using settle_nth [of "replicate (length ps) None" ps i sched] assms
  by simp

lemma allSettled_length: "length (allSettled sched ps) = length ps"
  by (simp add: allSettled_def settle_length)

lemma allSettled_all:
  assumes "{..<length ps} \<subseteq> set sched"
  shows "allSettled sched ps = map Some ps"
proof (rule nth_equalityI)
  show "length (allSettled sched ps) = length (map Some ps)"
    by (simp add: allSettled_length)
next
  fix i assume "i < length (allSettled sched ps)"
  then have i: "i < length ps" by (simp add: allSettled_length)
  then have "i \<in> set sched" using assms by auto
  then show "allSettled sched ps ! i = map Some ps ! i"
    using i by (simp add: allSettled_nth)
qed

lemma buildComparisons_settled:
  assumes "{..<length (combos_of fs ms)} \<subseteq> set sched"
  shows "buildComparisons net sched task fs ms
       = Some (map (\<lambda>c. to_run c (outcome_of net task c)) (combos_of fs ms))"
proof -
  let ?cs = "combos_of fs ms"
  let ?ps = "map (\<lambda>(fw, m). runAgent net task (fw_id fw) (m_id m)) ?cs"
  have all: "allSettled sched ?ps = map Some ?ps"
    using assms by (intro allSettled_all) simp
  have "map (\<lambda>i. to_run (?cs ! i) (the (map Some ?ps ! i))) [0..<length ?cs]
      = map (\<lambda>c. to_run c (outcome_of net task c)) ?cs"
    by (intro nth_equalityI) (simp_all add: outcome_of_def case_prod_beta)
  then show ?thesis
    unfolding buildComparisons_def Let_def all
    by (simp add: list_all_iff)
qed

subsection \<open>The order of the cards\<close>

lemma length_filter_selected:
  assumes "distinct (map f xs)" and "distinct ys" and "set ys \<subseteq> f ` set xs"
  shows "length (filter (\<lambda>x. f x \<in> set ys) xs) = length ys"
proof -
  let ?sel = "filter (\<lambda>x. f x \<in> set ys) xs"
  have "distinct (map f ?sel)"
    using assms(1) by (simp add: distinct_map_filter)
  moreover have "set (map f ?sel) = set ys"
    using assms(3) by auto
  ultimately have "length (map f ?sel) = card (set ys)"
    by (metis distinct_card)
  then show ?thesis
    using assms(2) by (simp add: distinct_card)
qed

lemma to_run_combo: "run_framework (to_run c res) = fst c \<and> run_model (to_run c res) = snd c
   \<and> run_id (to_run c res) = fw_id (fst c) @ ''-'' @ m_id (snd c)"
  by (cases c; cases res) (simp_all add: to_run_def)

text \<open>
  C1, as stated, fails: the cards do not follow the order of the selections, and a selected
  identifier that the catalogue does not hold gets no card. With the frameworks selected as
  \<open>autogen, langgraph\<close> the first card is LangGraph's, where the product of the selections
  starts with AutoGen; with the models selected as \<open>gpt-41, gpt-5\<close> and one framework there
  is one card, not two.
\<close>

theorem buildComparisons_selection_order_counterexample:
  "map_option (map (\<lambda>r. (fw_id (run_framework r), m_id (run_model r))))
     (buildComparisons sample_network [0, 1] ''Summarize AI agents''
        [''autogen'', ''langgraph''] [''gpt-41''])
   = Some [(''langgraph'', ''gpt-41''), (''autogen'', ''gpt-41'')]
   \<and> List.product [''autogen'', ''langgraph''] [''gpt-41'']
     = [(''autogen'', ''gpt-41''), (''langgraph'', ''gpt-41'')]
   \<and> map_option length
       (buildComparisons sample_network [0] ''Summarize AI agents''
          [''langgraph''] [''gpt-41'', ''gpt-5''])
     = Some 1"
  by (simp add: buildComparisons_def combos_of_def allSettled_def frameworks_def models_def
      to_run_def runAgent_def js_get_def PROVIDER_MAP_def sample_network_def res_ok_def
      nullish_or_def)

text \<open>
  C1, amended. Once every call has settled, in whatever order, \<open>buildComparisons\<close> returns
  one card per combination of the framework-major, model-minor product of the catalogue
  entries whose identifiers are selected, both taken in catalogue order; the card at index
  \<open>i\<close> is built from the outcome of the call for the \<open>i\<close>-th combination. Its length is
  the product of the lengths of the two selections when these are duplicate-free and hold
  catalogue identifiers only.
\<close>

theorem buildComparisons_catalogue_order:
  assumes "{..<length (combos_of nextFrameworks nextModels)} \<subseteq> set sched"
  shows "\<exists>runs. buildComparisons net sched task nextFrameworks nextModels = Some runs
     \<and> map (\<lambda>r. (run_framework r, run_model r)) runs
         = List.product (filter (\<lambda>fw. fw_id fw \<in> set nextFrameworks) frameworks)
             (filter (\<lambda>m. m_id m \<in> set nextModels) models)
     \<and> (\<forall>i<length runs. runs ! i
           = to_run (combos_of nextFrameworks nextModels ! i)
               (outcome_of net task (combos_of nextFrameworks nextModels ! i)))
     \<and> (distinct nextFrameworks \<and> set nextFrameworks \<subseteq> fw_id ` set frameworks
        \<and> distinct nextModels \<and> set nextModels \<subseteq> m_id ` set models
        \<longrightarrow> length runs = length nextFrameworks * length nextModels)"
proof -
  let ?cs = "combos_of nextFrameworks nextModels"
  let ?runs = "map (\<lambda>c. to_run c (outcome_of net task c)) ?cs"
  let ?pf = "filter (\<lambda>fw. fw_id fw \<in> set nextFrameworks) frameworks"
  let ?pm = "filter (\<lambda>m. m_id m \<in> set nextModels) models"
  have cs: "?cs = List.product ?pf ?pm"
    by (simp add: combos_of_def List.product_concat_map)
  have "map (\<lambda>r. (run_framework r, run_model r)) ?runs = ?cs"
    by (simp add: comp_def to_run_combo)
  moreover have "distinct (map fw_id frameworks)" "distinct (map m_id models)"
    by (simp_all add: frameworks_def models_def)
  then have "distinct nextFrameworks \<and> set nextFrameworks \<subseteq> fw_id ` set frameworks
        \<and> distinct nextModels \<and> set nextModels \<subseteq> m_id ` set models
        \<longrightarrow> length ?runs = length nextFrameworks * length nextModels"
    by (simp add: cs length_filter_selected)
  ultimately show ?thesis
    using buildComparisons_settled [OF assms, of net task] cs by simp
qed

text \<open>
  Two frameworks selected against the catalogue order, two models, the four calls settling
  in the order 3, 1, 0, 2.
\<close>

theorem buildComparisons_catalogue_order_witness:
  "map_option (map (\<lambda>r. (fw_id (run_framework r), m_id (run_model r))))
     (buildComparisons sample_network [3, 1, 0, 2] ''Summarize AI agents''
        [''autogen'', ''langgraph''] [''gpt-41'', ''claude-37''])
   = Some [(''langgraph'', ''gpt-41''), (''langgraph'', ''claude-37''),
           (''autogen'', ''gpt-41''), (''autogen'', ''claude-37'')]"
proof -
  let ?fs = "[''autogen'', ''langgraph'']" and ?ms = "[''gpt-41'', ''claude-37'']"
  have "length (combos_of ?fs ?ms) = 4"
    by (simp add: combos_of_def frameworks_def models_def)
  then have "{..<length (combos_of ?fs ?ms)} \<subseteq> set [3, 1, 0, 2]"
    by auto
  from buildComparisons_catalogue_order [OF this, of sample_network "''Summarize AI agents''"]
  obtain runs
    where b: "buildComparisons sample_network [3, 1, 0, 2] ''Summarize AI agents'' ?fs ?ms = Some runs"
      and p: "map (\<lambda>r. (run_framework r, run_model r)) runs
         = List.product (filter (\<lambda>fw. fw_id fw \<in> set ?fs) frameworks)
             (filter (\<lambda>m. m_id m \<in> set ?ms) models)"
    by blast
  have "map (\<lambda>r. (fw_id (run_framework r), m_id (run_model r))) runs
      = map (\<lambda>c. (fw_id (fst c), m_id (snd c))) (map (\<lambda>r. (run_framework r, run_model r)) runs)"
    by (simp add: comp_def)
  also have "\<dots> = [(''langgraph'', ''gpt-41''), (''langgraph'', ''claude-37''),
           (''autogen'', ''gpt-41''), (''autogen'', ''claude-37'')]"
    unfolding p by (simp add: frameworks_def models_def)
  finally show ?thesis using b by simp
qed

subsection \<open>The card of a rejected call\<close>

lemma decimal_500: "decimal 500 = ''500''"
  by (simp add: decimal.simps)

lemma rejection_lacks_safety:
  "safety (metrics (to_run c (Inl message))) = None"
  by (cases c) (simp add: to_run_def)

text \<open>
  Every record that \<open>runAgent\<close> fulfils with carries a safety value: the provider's, or 0
  when the provider gives none.
\<close>

theorem runAgent_fulfilled_has_safety:
  assumes "runAgent net task frameworkId modelId = Inr v"
  shows "\<exists>s. safety (r_metrics v) = Some s"
  using assms
  by (auto simp: runAgent_def Let_def split: if_splits fetch_outcome.splits body.splits)

text \<open>The LangGraph endpoint of the sample network reports safety 100.\<close>

theorem runAgent_fulfilled_has_safety_witness:
  "map_sum id (\<lambda>v. safety (r_metrics v))
     (runAgent sample_network ''Summarize AI agents'' ''langgraph'' ''gpt-41'') = Inr (Some 100)"
proof -
  have r: "runAgent sample_network ''Summarize AI agents'' ''langgraph'' ''gpt-41''
      = Inr \<lparr>r_output = Some ''ok'', r_steps = [''Initialized LangGraph''],
             r_metrics = \<lparr>latency = 3 / 2, tokens = 250, cost = 25 / 10000, quality = 95,
                          coverage = 98, safety = Some 100\<rparr>\<rparr>"
    by (simp add: runAgent_def js_get_def PROVIDER_MAP_def sample_network_def res_ok_def
        nullish_or_def toFixed1_def floor_eq_iff)
  from runAgent_fulfilled_has_safety [OF r] show ?thesis
    by (simp add: r)
qed

text \<open>
  C9 does not hold of the code. The card built from a rejected call has the metrics
  latency, tokens, cost, quality and coverage, all zero, and no safety; the card of a
  fulfilled call has them all. Here the LangGraph call is fulfilled and the AutoGen call is
  rejected with status 500.
\<close>

theorem buildComparisons_rejection_lacks_safety:
  "map_option (map (\<lambda>r. (run_id r, error r, safety (metrics r))))
     (buildComparisons sample_network [1, 0] ''Summarize AI agents''
        [''langgraph'', ''autogen''] [''gpt-41''])
   = Some [(''langgraph-gpt-41'', None, Some 100),
           (''autogen-gpt-41'', Some ''Provider error: 500'', None)]"
  by (simp add: buildComparisons_def combos_of_def allSettled_def frameworks_def models_def
      to_run_def runAgent_def js_get_def PROVIDER_MAP_def sample_network_def res_ok_def
      nullish_or_def decimal_500)

section \<open>The simulated adapters\<close>

subsection \<open>The mock response and the branches of \<open>simulateAgent\<close>\<close>

lemma mock_fields:
  "get_prop (snd (getMockResponse framework task styles)) ''tokens'' = Some (JNum (Fin 250))"
  "get_prop (snd (getMockResponse framework task styles)) ''cost'' = Some (JNum (Fin (25 / 10000)))"
  "get_prop (snd (getMockResponse framework task styles)) ''quality'' = Some (JNum (Fin 95))"
  "get_prop (snd (getMockResponse framework task styles)) ''coverage'' = Some (JNum (Fin 98))"
  "get_prop (snd (getMockResponse framework task styles)) ''safety'' = Some (JNum (Fin 100))"
  "get_prop (snd (getMockResponse framework task styles)) ''error'' = Some JUndefined"
  "get_prop (snd (getMockResponse framework task styles)) ''steps''
     = Some (JArr [JStr (''Initialized '' @ framework), JStr ''Processed Input'',
                   JStr ''Generated Response'', JStr ''Finalized''])"
  "fst (getMockResponse framework task styles) = [Sleep 100]"
  by (simp_all add: getMockResponse_def get_prop_def)

lemma simulateAgent_rejected:
  assumes "credential_rejected (OPENAI_API_KEY env)"
  shows "simulateAgent rt env task model framework styles stepsHint
       = getMockResponse framework task styles"
  using assms by (simp add: simulateAgent_def credential_rejected_def Let_def)

lemma simulateAgent_accepted:
  assumes "\<not> credential_rejected (OPENAI_API_KEY env)"
  shows "simulateAgent rt env task model framework styles stepsHint
       = (let call = Fetch ''https://api.openai.com/v1/chat/completions''
                       (''Bearer '' @ apiKey_of (rawKey_of (OPENAI_API_KEY env)))
          in case simulate_try rt (openai env) task model framework styles of
               Some (effects, response) \<Rightarrow> (call # effects, response)
             | None \<Rightarrow> (call # fst (getMockResponse framework task styles),
                        snd (getMockResponse framework task styles)))"
  using assms
  by (auto simp: simulateAgent_def credential_rejected_def Let_def
      split: option.splits prod.splits)

lemma simulate_try_not_ok:
  assumes "\<not> res_ok status"
  shows "simulate_try rt (Answer status body_text json) task model framework styles = None
       \<or> simulate_try rt (Answer status body_text json) task model framework styles
           = Some (getMockResponse framework task styles)"
  using assms by (simp add: simulate_try_def split: option.splits)

lemma simulateAgent_not_ok:
  assumes "\<not> credential_rejected (OPENAI_API_KEY env)"
    and "openai env = Answer status body_text json"
    and "\<not> res_ok status"
  shows "simulateAgent rt env task model framework styles stepsHint
       = (Fetch ''https://api.openai.com/v1/chat/completions''
            (''Bearer '' @ apiKey_of (rawKey_of (OPENAI_API_KEY env))) # [Sleep 100],
          snd (getMockResponse framework task styles))"
proof -
  let ?mock = "getMockResponse framework task styles"
  let ?attempt = "simulate_try rt (Answer status body_text json) task model framework styles"
  have m: "?mock = ([Sleep 100], snd ?mock)"
    by (simp add: getMockResponse_def)
  from simulate_try_not_ok [OF assms(3)]
  consider (thrown) "?attempt = None" | (fallback) "?attempt = Some ([Sleep 100], snd ?mock)"
    using m by metis
  then show ?thesis
  proof cases
    case thrown
    then show ?thesis
      by (simp add: simulateAgent_accepted [OF assms(1)] assms(2) mock_fields)
  next
    case fallback
    then show ?thesis
      by (simp add: simulateAgent_accepted [OF assms(1)] assms(2))
  qed
qed

lemma credential_examples:
  "credential_rejected None"
  "credential_rejected (Some [])"
  "credential_rejected (Some ''   '')"
  "credential_rejected (Some ''your_key_here'')"
  "credential_rejected (Some ''sk-placeholder'')"
  "credential_rejected (Some ''sk-my-placeholder-key'')"
  "credential_rejected (Some ''pk-12345'')"
  "\<not> credential_rejected (Some '' sk-test-key '')"
  by (simp_all add: credential_rejected_def rawKey_of_def apiKey_of_def trim_def is_space_def
      is_key_char_def Let_def)

subsection \<open>No usable credential\<close>

text \<open>
  C3. When the credential is absent, empty after sanitising, not of the form \<open>sk-...\<close>, or
  a placeholder, \<open>simulateAgent\<close> returns the mock response, whatever the task, and its only
  effect is the pause: no call of the upstream. The mock response has quality 95, coverage
  98, safety 100, tokens 250 and cost 0.0025.
\<close>

theorem simulateAgent_without_credential:
  assumes "credential_rejected (OPENAI_API_KEY env)"
  shows "simulateAgent rt env task model framework styles stepsHint
           = getMockResponse framework task styles
     \<and> fst (simulateAgent rt env task model framework styles stepsHint) = [Sleep 100]
     \<and> get_prop (snd (simulateAgent rt env task model framework styles stepsHint)) ''quality''
           = Some (JNum (Fin 95))
     \<and> get_prop (snd (simulateAgent rt env task model framework styles stepsHint)) ''coverage''
           = Some (JNum (Fin 98))
     \<and> get_prop (snd (simulateAgent rt env task model framework styles stepsHint)) ''safety''
           = Some (JNum (Fin 100))
     \<and> get_prop (snd (simulateAgent rt env task model framework styles stepsHint)) ''tokens''
           = Some (JNum (Fin 250))
     \<and> get_prop (snd (simulateAgent rt env task model framework styles stepsHint)) ''cost''
           = Some (JNum (Fin (25 / 10000)))"
  by (simp add: simulateAgent_rejected [OF assms] mock_fields)

text \<open>
  No key with the empty task, the placeholder of the README, and the key \<open>sk-placeholder\<close>.
\<close>

theorem simulateAgent_without_credential_witness:
  "api_langgraph sample_runtime (sample_env None (Answer 200 None (Some sample_completion))) [] ''gpt-41''
     = getMockResponse ''LangGraph'' [] []
   \<and> api_autogen sample_runtime (sample_env (Some ''your_key_here'') Unreachable)
        ''Summarize AI agents'' ''gpt-41''
     = getMockResponse ''AutoGen'' ''Summarize AI agents'' []
   \<and> fst (api_crewai sample_runtime (sample_env (Some ''sk-placeholder'') Unreachable)
        ''Summarize AI agents'' ''gpt-41'') = [Sleep 100]"
  using simulateAgent_without_credential [of "sample_env None (Answer 200 None (Some sample_completion))"
      sample_runtime "[]" "''gpt-41''" "''LangGraph''"]
    simulateAgent_without_credential [of "sample_env (Some ''your_key_here'') Unreachable"
      sample_runtime "''Summarize AI agents''" "''gpt-41''" "''AutoGen''"]
    simulateAgent_without_credential [of "sample_env (Some ''sk-placeholder'') Unreachable"
      sample_runtime "''Summarize AI agents''" "''gpt-41''" "''CrewAI''"]
  by (simp add: credential_examples sample_env_def api_langgraph_def api_autogen_def
      api_crewai_def getMockResponse_def)

subsection \<open>Authorization and quota failures\<close>

text \<open>
  C4. With a credential that passes the guard, an upstream answer of status 401 or 429, or
  of any other non-2xx status whose body contains \<open>invalid_api_key\<close>, makes \<open>simulateAgent\<close>
  return the mock response: the same object as without a credential, with no \<open>error\<close>
  property.
\<close>

theorem simulateAgent_auth_failure_mock:
  assumes "\<not> credential_rejected (OPENAI_API_KEY env)"
    and "openai env = Answer status body_text json"
    and "status = 401 \<or> status = 429
         \<or> (\<not> res_ok status \<and> (\<exists>err. body_text = Some err \<and> js_includes err ''invalid_api_key''))"
  shows "snd (simulateAgent rt env task model framework styles stepsHint)
           = snd (getMockResponse framework task styles)
     \<and> snd (simulateAgent rt env task model framework styles stepsHint)
           = snd (simulateAgent rt (env\<lparr>OPENAI_API_KEY := None\<rparr>) task model framework styles stepsHint)
     \<and> get_prop (snd (simulateAgent rt env task model framework styles stepsHint)) ''error''
           = Some JUndefined"
proof -
  have "\<not> res_ok status"
    using assms(3) by (auto simp: res_ok_def)
  from simulateAgent_not_ok [OF assms(1,2) this]
  have "snd (simulateAgent rt env task model framework styles stepsHint)
           = snd (getMockResponse framework task styles)"
    by simp
  moreover have "credential_rejected (OPENAI_API_KEY (env\<lparr>OPENAI_API_KEY := None\<rparr>))"
    by (simp add: credential_rejected_def rawKey_of_def apiKey_of_def)
  ultimately show ?thesis
    by (simp add: simulateAgent_rejected mock_fields)
qed

text \<open>
  Status 401, status 429 with an unreadable body, and status 400 with the signature in the
  body.
\<close>

theorem simulateAgent_auth_failure_mock_witness:
  "snd (api_langgraph sample_runtime
          (sample_env (Some ''sk-test-key'') (Answer 401 (Some ''Unauthorized'') None))
          ''Summarize AI agents'' ''gpt-41'')
     = snd (getMockResponse ''LangGraph'' ''Summarize AI agents'' [])
   \<and> snd (api_langgraph sample_runtime
          (sample_env (Some ''sk-test-key'') (Answer 429 None None))
          ''Summarize AI agents'' ''gpt-41'')
     = snd (getMockResponse ''LangGraph'' ''Summarize AI agents'' [])
   \<and> snd (api_langgraph sample_runtime
          (sample_env (Some ''sk-test-key'') (Answer 400 (Some ''code: invalid_api_key'') None))
          ''Summarize AI agents'' ''gpt-41'')
     = snd (getMockResponse ''LangGraph'' ''Summarize AI agents'' [])"
proof -
  have key: "\<not> credential_rejected (Some ''sk-test-key'')"
    by (simp add: credential_rejected_def rawKey_of_def apiKey_of_def trim_def is_space_def
      is_key_char_def Let_def)
  have sig: "js_includes ''code: invalid_api_key'' ''invalid_api_key''"
    by simp
  show ?thesis
    using simulateAgent_auth_failure_mock
        [of "sample_env (Some ''sk-test-key'') (Answer 401 (Some ''Unauthorized'') None)"
          401 "Some ''Unauthorized''" None sample_runtime "''Summarize AI agents''" "''gpt-41''"
          "''LangGraph''"]
      simulateAgent_auth_failure_mock
        [of "sample_env (Some ''sk-test-key'') (Answer 429 None None)"
          429 None None sample_runtime "''Summarize AI agents''" "''gpt-41''" "''LangGraph''"]
      simulateAgent_auth_failure_mock
        [of "sample_env (Some ''sk-test-key'') (Answer 400 (Some ''code: invalid_api_key'') None)"
          400 "Some ''code: invalid_api_key''" None sample_runtime "''Summarize AI agents''"
          "''gpt-41''" "''LangGraph''"]
      key sig
    by (simp add: sample_env_def api_langgraph_def res_ok_def getMockResponse_def)
qed

subsection \<open>Other upstream failures\<close>

text \<open>
  C2, as stated, fails: with a credential that passes the guard and an upstream answer of
  status 500 whose body is \<open>Internal Server Error\<close>, the adapter returns the mock response
  (tokens 250, quality 95, four steps, no \<open>error\<close> property), not a record of zeros with an
  error message. The error thrown for such a status is caught by the \<open>catch\<close> block of
  \<open>simulateAgent\<close> itself.
\<close>

theorem simulateAgent_server_error_counterexample:
  "get_prop (snd (api_langgraph sample_runtime
       (sample_env (Some ''sk-test-key'') (Answer 500 (Some ''Internal Server Error'') None))
       ''Summarize AI agents'' ''gpt-41'')) ''tokens'' = Some (JNum (Fin 250))
   \<and> get_prop (snd (api_langgraph sample_runtime
       (sample_env (Some ''sk-test-key'') (Answer 500 (Some ''Internal Server Error'') None))
       ''Summarize AI agents'' ''gpt-41'')) ''quality'' = Some (JNum (Fin 95))
   \<and> get_prop (snd (api_langgraph sample_runtime
       (sample_env (Some ''sk-test-key'') (Answer 500 (Some ''Internal Server Error'') None))
       ''Summarize AI agents'' ''gpt-41'')) ''steps''
       = Some (JArr [JStr ''Initialized LangGraph'', JStr ''Processed Input'',
                     JStr ''Generated Response'', JStr ''Finalized''])
   \<and> get_prop (snd (api_langgraph sample_runtime
       (sample_env (Some ''sk-test-key'') (Answer 500 (Some ''Internal Server Error'') None))
       ''Summarize AI agents'' ''gpt-41'')) ''error'' = Some JUndefined"
  by (simp add: api_langgraph_def simulateAgent_def simulate_try_def sample_env_def
      rawKey_of_def apiKey_of_def trim_def is_space_def is_key_char_def res_ok_def
      getMockResponse_def get_prop_def Let_def)

text \<open>
  C2, amended. With a credential that passes the guard, every upstream answer of a non-2xx
  status, whatever its body, makes \<open>simulateAgent\<close> return the mock response: tokens 250,
  cost 0.0025, quality 95, coverage 98, safety 100, the four mock steps and no \<open>error\<close>
  property.
\<close>

theorem simulateAgent_failure_mock:
  assumes "\<not> credential_rejected (OPENAI_API_KEY env)"
    and "openai env = Answer status body_text json"
    and "\<not> res_ok status"
  shows "snd (simulateAgent rt env task model framework styles stepsHint)
           = snd (getMockResponse framework task styles)
     \<and> get_prop (snd (simulateAgent rt env task model framework styles stepsHint)) ''tokens''
           = Some (JNum (Fin 250))
     \<and> get_prop (snd (simulateAgent rt env task model framework styles stepsHint)) ''cost''
           = Some (JNum (Fin (25 / 10000)))
     \<and> get_prop (snd (simulateAgent rt env task model framework styles stepsHint)) ''quality''
           = Some (JNum (Fin 95))
     \<and> get_prop (snd (simulateAgent rt env task model framework styles stepsHint)) ''coverage''
           = Some (JNum (Fin 98))
     \<and> get_prop (snd (simulateAgent rt env task model framework styles stepsHint)) ''safety''
           = Some (JNum (Fin 100))
     \<and> get_prop (snd (simulateAgent rt env task model framework styles stepsHint)) ''steps''
           = Some (JArr [JStr (''Initialized '' @ framework), JStr ''Processed Input'',
                         JStr ''Generated Response'', JStr ''Finalized''])
     \<and> get_prop (snd (simulateAgent rt env task model framework styles stepsHint)) ''error''
           = Some JUndefined"
  by (simp add: simulateAgent_not_ok [OF assms] mock_fields)

text \<open>
  Status 500 with a body, and status 503 with an unreadable body.
\<close>

theorem simulateAgent_failure_mock_witness:
  "snd (api_autogen sample_runtime
          (sample_env (Some ''sk-test-key'') (Answer 500 (Some ''Internal Server Error'') None))
          ''Summarize AI agents'' ''gpt-41'')
     = snd (getMockResponse ''AutoGen'' ''Summarize AI agents'' [])
   \<and> snd (api_autogen sample_runtime
          (sample_env (Some ''sk-test-key'') (Answer 503 None None))
          ''Summarize AI agents'' ''gpt-41'')
     = snd (getMockResponse ''AutoGen'' ''Summarize AI agents'' [])"
proof -
  have key: "\<not> credential_rejected (Some ''sk-test-key'')"
    by (simp add: credential_rejected_def rawKey_of_def apiKey_of_def trim_def is_space_def
      is_key_char_def Let_def)
  show ?thesis
    using simulateAgent_failure_mock
        [of "sample_env (Some ''sk-test-key'') (Answer 500 (Some ''Internal Server Error'') None)"
          500 "Some ''Internal Server Error''" None sample_runtime "''Summarize AI agents''"
          "''gpt-41''" "''AutoGen''"]
      simulateAgent_failure_mock
        [of "sample_env (Some ''sk-test-key'') (Answer 503 None None)"
          503 None None sample_runtime "''Summarize AI agents''" "''gpt-41''" "''AutoGen''"]
      key
    by (simp add: sample_env_def api_autogen_def res_ok_def getMockResponse_def)
qed

subsection \<open>The live path\<close>

lemma get_prop_total:
  assumes "get_prop v name = Some x"
  shows "\<exists>y. get_prop v other = Some y"
  using assms by (cases v) (simp_all add: get_prop_def)

text \<open>
  On a success of the live path the adapter has called the upstream once and returns the
  object of the source's last \<open>return\<close>.
\<close>

lemma simulateAgent_live:
  assumes "live_result rt env = Some (result, total_tokens)"
  shows "\<exists>out logs result_steps result_quality result_coverage.
       get_prop result ''output'' = Some out
     \<and> get_prop result ''logs'' = Some logs
     \<and> get_prop result ''steps'' = Some result_steps
     \<and> get_prop result ''quality'' = Some result_quality
     \<and> get_prop result ''coverage'' = Some result_coverage
     \<and> simulateAgent rt env task model framework styles stepsHint
         = ([Fetch ''https://api.openai.com/v1/chat/completions''
               (''Bearer '' @ apiKey_of (rawKey_of (OPENAI_API_KEY env)))],
            JObj
              [(''output'', JStr (to_string rt out @ ''\<newline>\<newline>---\<newline>LOGS:\<newline>''
                  @ to_string rt logs)),
               (''tokens'', total_tokens),
               (''cost'', JNum (num_mul (num_div (to_number rt total_tokens) (Fin 1000))
                                 (price_or_default model))),
               (''steps'', result_steps),
               (''quality'', js_or result_quality (JNum (Fin 85))),
               (''coverage'', js_or result_coverage (JNum (Fin 90))),
               (''safety'', JNum (Fin 95))])"
proof -
  from assms have key: "\<not> credential_rejected (OPENAI_API_KEY env)"
    by (auto simp: live_result_def split: if_splits)
  from assms key obtain status body_text d
    where up: "openai env = Answer status body_text (Some d)" and ok: "res_ok status"
      and r: "parsed_result rt d = Some result"
      and t: "usage_total_tokens d = Some total_tokens"
      and o: "get_prop result ''output'' \<noteq> None"
    by (auto simp: live_result_def split: upstream.splits if_splits option.splits
        Option.bind_splits)
  from o obtain out where out: "get_prop result ''output'' = Some out" by blast
  from get_prop_total [OF out] obtain logs result_steps result_quality result_coverage
    where rest: "get_prop result ''logs'' = Some logs"
      "get_prop result ''steps'' = Some result_steps"
      "get_prop result ''quality'' = Some result_quality"
      "get_prop result ''coverage'' = Some result_coverage"
    by metis
  have "simulate_try rt (openai env) task model framework styles
      = Some ([], JObj
              [(''output'', JStr (to_string rt out @ ''\<newline>\<newline>---\<newline>LOGS:\<newline>''
                  @ to_string rt logs)),
               (''tokens'', total_tokens),
               (''cost'', JNum (num_mul (num_div (to_number rt total_tokens) (Fin 1000))
                                 (price_or_default model))),
               (''steps'', result_steps),
               (''quality'', js_or result_quality (JNum (Fin 85))),
               (''coverage'', js_or result_coverage (JNum (Fin 90))),
               (''safety'', JNum (Fin 95))])"
    by (simp add: simulate_try_def up ok r t out rest)
  then show ?thesis
    using out rest by (simp add: simulateAgent_accepted [OF key])
qed

lemma sample_live:
  "live_result sample_runtime
     (sample_env (Some ''sk-test-key'') (Answer 200 None (Some sample_completion)))
   = Some (sample_result_object, JNum (Fin 1000))"
  by (simp add: live_result_def sample_env_def credential_examples res_ok_def
      parsed_result_def usage_total_tokens_def sample_completion_def get_prop_def get_first_def
      sample_runtime_def sample_result_object_def credential_rejected_def rawKey_of_def
      apiKey_of_def trim_def is_space_def is_key_char_def Let_def)

text \<open>
  C10. On a success of the live path, a reported quality of 0 is returned as 85, as an
  omitted quality is, and a reported coverage of 0 is returned as 90, as an omitted coverage
  is: every falsy reported value is replaced, every truthy one is returned as it is.
\<close>

theorem simulateAgent_zero_scores_replaced:
  assumes "live_result rt env = Some (result, total_tokens)"
  shows "(get_prop result ''quality'' = Some (JNum (Fin 0)) \<longrightarrow>
            get_prop (snd (simulateAgent rt env task model framework styles stepsHint)) ''quality''
              = Some (JNum (Fin 85)))
     \<and> (get_prop result ''quality'' = Some JUndefined \<longrightarrow>
            get_prop (snd (simulateAgent rt env task model framework styles stepsHint)) ''quality''
              = Some (JNum (Fin 85)))
     \<and> (get_prop result ''coverage'' = Some (JNum (Fin 0)) \<longrightarrow>
            get_prop (snd (simulateAgent rt env task model framework styles stepsHint)) ''coverage''
              = Some (JNum (Fin 90)))
     \<and> (get_prop result ''coverage'' = Some JUndefined \<longrightarrow>
            get_prop (snd (simulateAgent rt env task model framework styles stepsHint)) ''coverage''
              = Some (JNum (Fin 90)))
     \<and> (\<forall>q. get_prop result ''quality'' = Some q \<longrightarrow>
            get_prop (snd (simulateAgent rt env task model framework styles stepsHint)) ''quality''
              = Some (if js_truthy q then q else JNum (Fin 85)))
     \<and> (\<forall>c. get_prop result ''coverage'' = Some c \<longrightarrow>
            get_prop (snd (simulateAgent rt env task model framework styles stepsHint)) ''coverage''
              = Some (if js_truthy c then c else JNum (Fin 90)))"
proof -
  from simulateAgent_live [OF assms, of task model framework styles stepsHint]
  obtain out logs result_steps result_quality result_coverage
    where q: "get_prop result ''quality'' = Some result_quality"
      and c: "get_prop result ''coverage'' = Some result_coverage"
      and s: "snd (simulateAgent rt env task model framework styles stepsHint)
         = JObj
              [(''output'', JStr (to_string rt out @ ''\<newline>\<newline>---\<newline>LOGS:\<newline>''
                  @ to_string rt logs)),
               (''tokens'', total_tokens),
               (''cost'', JNum (num_mul (num_div (to_number rt total_tokens) (Fin 1000))
                                 (price_or_default model))),
               (''steps'', result_steps),
               (''quality'', js_or result_quality (JNum (Fin 85))),
               (''coverage'', js_or result_coverage (JNum (Fin 90))),
               (''safety'', JNum (Fin 95))]"
    by force
  show ?thesis
    unfolding s q c by (simp add: get_prop_def js_or_def)
qed

text \<open>
  The sample completion reports quality 0 and coverage 0.
\<close>

theorem simulateAgent_zero_scores_replaced_witness:
  "get_prop sample_result_object ''quality'' = Some (JNum (Fin 0))
   \<and> get_prop sample_result_object ''coverage'' = Some (JNum (Fin 0))
   \<and> get_prop (snd (api_langgraph sample_runtime
        (sample_env (Some ''sk-test-key'') (Answer 200 None (Some sample_completion)))
        ''Summarize AI agents'' ''gpt-41'')) ''quality'' = Some (JNum (Fin 85))
   \<and> get_prop (snd (api_langgraph sample_runtime
        (sample_env (Some ''sk-test-key'') (Answer 200 None (Some sample_completion)))
        ''Summarize AI agents'' ''gpt-41'')) ''coverage'' = Some (JNum (Fin 90))"
proof -
  have q: "get_prop sample_result_object ''quality'' = Some (JNum (Fin 0))"
    and c: "get_prop sample_result_object ''coverage'' = Some (JNum (Fin 0))"
    by (simp_all add: sample_result_object_def get_prop_def)
  show ?thesis
    using simulateAgent_zero_scores_replaced [OF sample_live, of "''Summarize AI agents''"
        "''gpt-41''" "''LangGraph''"
        "[''Graph-structured'', ''Cyclic'', ''Stateful'', ''Precise control flow'']"
        "''Define Graph State -> Node: Retrieve -> Node: Grade check -> Node: Generate -> Edge: End''"]
      q c
    by (simp add: api_langgraph_def)
qed

subsection \<open>The cost of a live answer\<close>

lemma price_or_default_cases:
  "price_or_default ''gpt-41'' = Fin (4 / 1000)"
  "price_or_default ''claude-37'' = Fin (35 / 10000)"
  "price_or_default ''llama-33'' = Fin (15 / 10000)"
  "price_or_default ''gemini-20'' = Fin (2 / 1000)"
  "price_or_default ''gpt-4o'' = Fin (2 / 1000)"
  "price_or_default ''constructor'' = NaN"
  by (simp_all add: price_or_default_def js_get_def priceTable_def object_prototype_members_def)

lemma price_or_default_unknown:
  assumes "model \<notin> fst ` set priceTable" and "model \<notin> set object_prototype_members"
  shows "price_or_default model = Fin (2 / 1000)"
proof -
  have "map_of priceTable model = None"
    using assms(1) by (simp add: map_of_eq_None_iff)
  then show ?thesis
    using assms(2) by (simp add: price_or_default_def js_get_def)
qed

lemma simulateAgent_live_tokens:
  assumes "live_result rt env = Some (result, total_tokens)"
  shows "get_prop (snd (simulateAgent rt env task model framework styles stepsHint)) ''tokens''
       = Some total_tokens"
  using simulateAgent_live [OF assms, of task model framework styles stepsHint]
  by (auto simp: get_prop_def)

text \<open>
  The cost is the reported token count over 1000 times the rate of the target model for a
  model of the price table, and times 0.002 for a model that the lookup does not find. The
  lookup does find the names that the table inherits from \<open>Object.prototype\<close>: there the
  cost is \<open>NaN\<close>.
\<close>

lemma simulateAgent_live_cost:
  assumes "live_result rt env = Some (result, total_tokens)"
    and "to_number rt total_tokens = Fin n"
  shows "get_prop (snd (simulateAgent rt env task model framework styles stepsHint)) ''cost''
       = Some (JNum (case js_get priceTable model of
                       Own rate \<Rightarrow> Fin (n / 1000 * rate)
                     | Inherited \<Rightarrow> NaN
                     | Missing \<Rightarrow> Fin (n / 1000 * (2 / 1000))))"
proof -
  have own: "\<And>rate. map_of priceTable model = Some rate \<Longrightarrow> rate \<noteq> 0"
    by (auto simp: priceTable_def split: if_splits)
  from simulateAgent_live [OF assms(1), of task model framework styles stepsHint]
  show ?thesis
    using assms(2) own
    by (auto simp: get_prop_def price_or_default_def js_get_def split: option.splits)
qed

text \<open>
  On a success of the live path with a numeric token count, the cost is that count over
  1000 times the rate the price table gives the target model, and times 0.002 when the
  target model is neither in the table nor a name the table inherits. The rate of the
  simulator's own model is no part of it.
\<close>

theorem simulateAgent_live_cost_by_target_rate:
  assumes "live_result rt env = Some (result, JNum (Fin n))"
  shows "(\<forall>rate. (model, rate) \<in> set priceTable \<longrightarrow>
            get_prop (snd (simulateAgent rt env task model framework styles stepsHint)) ''cost''
              = Some (JNum (Fin (n / 1000 * rate))))
     \<and> (model \<notin> fst ` set priceTable \<and> model \<notin> set object_prototype_members \<longrightarrow>
            get_prop (snd (simulateAgent rt env task model framework styles stepsHint)) ''cost''
              = Some (JNum (Fin (n / 1000 * (2 / 1000)))))"
proof -
  have n: "to_number rt (JNum (Fin n)) = Fin n"
    by simp
  have d: "distinct (map fst priceTable)"
    by (simp add: priceTable_def)
  have "\<And>rate. (model, rate) \<in> set priceTable \<Longrightarrow> js_get priceTable model = Own rate"
    using d by (simp add: js_get_def)
  moreover have "js_get priceTable model = Missing"
    if "model \<notin> fst ` set priceTable" and "model \<notin> set object_prototype_members"
  proof -
    have "map_of priceTable model = None"
      using that(1) by (simp add: map_of_eq_None_iff)
    then show ?thesis
      using that(2) by (simp add: js_get_def)
  qed
  ultimately show ?thesis
    using simulateAgent_live_cost [OF assms n, of task model framework styles stepsHint]
    by auto
qed

text \<open>
  1000 tokens reported: 0.0035 for the target \<open>claude-37\<close>, and 0.002 for the target
  \<open>gpt-4o\<close>, which the table does not hold.
\<close>

theorem simulateAgent_live_cost_by_target_rate_witness:
  "get_prop (snd (api_crewai sample_runtime
       (sample_env (Some ''sk-test-key'') (Answer 200 None (Some sample_completion)))
       ''Summarize AI agents'' ''claude-37'')) ''cost'' = Some (JNum (Fin (35 / 10000)))
   \<and> get_prop (snd (api_crewai sample_runtime
       (sample_env (Some ''sk-test-key'') (Answer 200 None (Some sample_completion)))
       ''Summarize AI agents'' ''gpt-4o'')) ''cost'' = Some (JNum (Fin (2 / 1000)))"
proof -
  have "(''claude-37'', 35 / 10000) \<in> set priceTable"
    and "''gpt-4o'' \<notin> fst ` set priceTable" and "''gpt-4o'' \<notin> set object_prototype_members"
    by (simp_all add: priceTable_def object_prototype_members_def)
  then show ?thesis
    using simulateAgent_live_cost_by_target_rate [OF sample_live, of "''claude-37''"
        "''Summarize AI agents''" "''CrewAI''"
        "[''Role-playing'', ''Task delegation'', ''Hierarchical'', ''Structured'']"
        "''Researcher gathers info -> Manager delegates -> Writer compiles -> Reviewer approves''"]
      simulateAgent_live_cost_by_target_rate [OF sample_live, of "''gpt-4o''"
        "''Summarize AI agents''" "''CrewAI''"
        "[''Role-playing'', ''Task delegation'', ''Hierarchical'', ''Structured'']"
        "''Researcher gathers info -> Manager delegates -> Writer compiles -> Reviewer approves''"]
    by (simp add: api_crewai_def)
qed

text \<open>
  C5 does not hold of the code for every model identifier. With 1000 tokens reported the
  cost is 0.004 for \<open>gpt-41\<close> and 0.002 for the unknown \<open>gpt-5\<close>, but \<open>NaN\<close> for the
  identifier \<open>constructor\<close>, where the lookup in the price table finds the inherited
  member and the fallback rate is not used.
\<close>

theorem simulateAgent_inherited_model_cost:
  "get_prop (snd (api_langgraph sample_runtime
       (sample_env (Some ''sk-test-key'') (Answer 200 None (Some sample_completion)))
       ''Summarize AI agents'' ''constructor'')) ''tokens'' = Some (JNum (Fin 1000))
   \<and> get_prop (snd (api_langgraph sample_runtime
       (sample_env (Some ''sk-test-key'') (Answer 200 None (Some sample_completion)))
       ''Summarize AI agents'' ''constructor'')) ''cost'' = Some (JNum NaN)
   \<and> get_prop (snd (api_langgraph sample_runtime
       (sample_env (Some ''sk-test-key'') (Answer 200 None (Some sample_completion)))
       ''Summarize AI agents'' ''gpt-41'')) ''cost'' = Some (JNum (Fin (4 / 1000)))
   \<and> get_prop (snd (api_langgraph sample_runtime
       (sample_env (Some ''sk-test-key'') (Answer 200 None (Some sample_completion)))
       ''Summarize AI agents'' ''gpt-5'')) ''cost'' = Some (JNum (Fin (2 / 1000)))"
proof -
  have n: "to_number sample_runtime (JNum (Fin 1000)) = Fin 1000"
    by simp
  have "js_get priceTable ''constructor'' = Inherited"
    and "js_get priceTable ''gpt-41'' = Own (4 / 1000)"
    and "js_get priceTable ''gpt-5'' = Missing"
    by (simp_all add: js_get_def priceTable_def object_prototype_members_def)
  then show ?thesis
    unfolding api_langgraph_def
    by (simp add: simulateAgent_live_tokens [OF sample_live]
        simulateAgent_live_cost [OF sample_live n])
qed

end
